theory Spec2Isabelle
  imports Main "HOL-Library.Sublist"
begin

section \<open>Strings as the code uses them\<close>

text \<open>
  Python strings are modelled as \<open>string\<close> (lists of characters). The operations below
  are the ones the classifier and the retriever call: \<open>kw in s\<close>, \<open>s.lower()\<close>,
  \<open>s.startswith(p)\<close>, \<open>s.split('/')\<close>, \<open>s.replace('_', ' ')\<close> and \<open>s.title()\<close>.
  Case conversion is the ASCII one: the 26 letters change, every other character is
  left alone.
\<close>

text \<open>\<open>kw in s\<close>: \<open>kw\<close> occurs in \<open>s\<close> as a contiguous run.\<close>

fun contains :: "string \<Rightarrow> string \<Rightarrow> bool" where
  "contains kw [] = (kw = [])"
| "contains kw (c # cs) = (prefix kw (c # cs) \<or> contains kw cs)"

definition upper_letters :: string where
  "upper_letters = ''ABCDEFGHIJKLMNOPQRSTUVWXYZ''"

definition lower_letters :: string where
  "lower_letters = ''abcdefghijklmnopqrstuvwxyz''"

definition lower_char :: "char \<Rightarrow> char" where
  "lower_char c = (case map_of (zip upper_letters lower_letters) c of Some l \<Rightarrow> l | None \<Rightarrow> c)"

definition upper_char :: "char \<Rightarrow> char" where
  "upper_char c = (case map_of (zip lower_letters upper_letters) c of Some u \<Rightarrow> u | None \<Rightarrow> c)"

definition is_letter :: "char \<Rightarrow> bool" where
  "is_letter c = (c \<in> set upper_letters \<or> c \<in> set lower_letters)"

definition lower :: "string \<Rightarrow> string" where
  "lower s = map lower_char s"

text \<open>\<open>any(keyword in s for keyword in kws)\<close>.\<close>

definition any_keyword_in :: "string list \<Rightarrow> string \<Rightarrow> bool" where
  "any_keyword_in kws s = list_ex (\<lambda>keyword. contains keyword s) kws"

text \<open>\<open>s.startswith(p)\<close>.\<close>

definition startswith :: "string \<Rightarrow> string \<Rightarrow> bool" where
  "startswith s p = prefix p s"

text \<open>
  \<open>s.split(sep)\<close> for a one-character separator: the pieces between the separators,
  one more than there are separators, empty pieces included.
\<close>

fun split_on :: "char \<Rightarrow> string \<Rightarrow> string list" where
  "split_on sep [] = [[]]"
| "split_on sep (c # cs) =
     (if c = sep then [] # split_on sep cs
      else (case split_on sep cs of [] \<Rightarrow> [[c]] | w # ws \<Rightarrow> (c # w) # ws))"

text \<open>\<open>s.replace(a, b)\<close> for single characters \<open>a\<close> and \<open>b\<close>.\<close>

definition replace_char :: "char \<Rightarrow> char \<Rightarrow> string \<Rightarrow> string" where
  "replace_char a b s = map (\<lambda>c. if c = a then b else c) s"

text \<open>
  \<open>s.title()\<close>: a letter that follows a letter is lower-cased, any other letter is
  upper-cased, and a character that is not a letter starts a new word.
\<close>

fun title_from :: "bool \<Rightarrow> string \<Rightarrow> string" where
  "title_from previous_is_cased [] = []"
| "title_from previous_is_cased (c # cs) =
     (if is_letter c
      then (if previous_is_cased then lower_char c else upper_char c) # title_from True cs
      else c # title_from False cs)"

definition title :: "string \<Rightarrow> string" where
  "title s = title_from False s"

text \<open>
  \<open>os.path.basename(p)\<close> on POSIX: what follows the last \<open>/\<close>, the whole path when
  there is none.
\<close>

definition basename :: "string \<Rightarrow> string" where
  "basename p = rev (takeWhile (\<lambda>c. c \<noteq> CHR ''/'') (rev p))"

text \<open>
  \<open>os.path.dirname(p)\<close> for a relative path with single slashes: what precedes the last
  \<open>/\<close>, the empty string when there is none.
\<close>

definition dirname :: "string \<Rightarrow> string" where
  "dirname p = rev (drop 1 (dropWhile (\<lambda>c. c \<noteq> CHR ''/'') (rev p)))"

text \<open>
  \<open>os.path.join(a, b)\<close> on POSIX: \<open>b\<close> alone when it is absolute, else \<open>a\<close> and \<open>b\<close>
  with one \<open>/\<close> between them unless \<open>a\<close> is empty or ends in one.
\<close>

definition path_join :: "string \<Rightarrow> string \<Rightarrow> string" where
  "path_join a b =
     (if startswith b ''/'' then b
      else if a = [] \<or> last a = CHR ''/'' then a @ b
      else a @ ''/'' @ b)"

text \<open>
  \<open>os.path.splitext(name)[1]\<close> for a file name: the part from the last dot on, empty
  when the name has no dot or only leading dots before it.
\<close>

definition splitext_ext :: "string \<Rightarrow> string" where
  "splitext_ext name =
     (if CHR ''.'' \<notin> set name then []
      else (let ext_rev = takeWhile (\<lambda>c. c \<noteq> CHR ''.'') (rev name);
                stem = rev (drop (Suc (length ext_rev)) (rev name))
            in if list_all (\<lambda>c. c = CHR ''.'') stem then [] else CHR ''.'' # rev ext_rev))"

text \<open>\<open>s.strip()\<close>, for the ASCII white space characters.\<close>

definition is_space :: "char \<Rightarrow> bool" where
  "is_space c = (c \<in> set [CHR '' '', CHR 0x09, CHR 0x0A, CHR 0x0B, CHR 0x0C, CHR 0x0D])"

definition strip :: "string \<Rightarrow> string" where
  "strip s = rev (dropWhile is_space (rev (dropWhile is_space s)))"

text \<open>
  \<open>d[k] = v\<close> on a dictionary kept as an association list: the value of an existing
  key is replaced where it stands, a new key goes to the end.
\<close>

fun dict_set :: "(string \<times> string) list \<Rightarrow> string \<Rightarrow> string \<Rightarrow> (string \<times> string) list" where
  "dict_set [] k v = [(k, v)]"
| "dict_set ((k', v') # rest) k v =
     (if k' = k then (k, v) # rest else (k', v') # dict_set rest k v)"

section \<open>The enhanced retriever (improved_rag.py)\<close>

text \<open>
  A langchain \<open>Document\<close>: its text and its metadata dictionary. The dictionary is an
  association list read with \<open>map_of\<close>, so \<open>doc.metadata.get('project')\<close> is
  \<open>map_of (metadata doc) ''project''\<close>, \<open>None\<close> when the key is absent.
\<close>

record document =
  page_content :: string
  metadata :: "(string \<times> string) list"

definition project_of :: "document \<Rightarrow> string option" where
  "project_of doc = map_of (metadata doc) ''project''"

text \<open>
  The test \<open>if project and project != 'Unknown'\<close> of the grouping loop: the label is
  present, not the empty string, and not \<open>'Unknown'\<close>.
\<close>

definition is_grouped :: "document \<Rightarrow> bool" where
  "is_grouped doc =
     (case project_of doc of None \<Rightarrow> False | Some project \<Rightarrow> project \<noteq> [] \<and> project \<noteq> ''Unknown'')"

text \<open>
  \<open>project_groups[project].append(doc)\<close> on a \<open>defaultdict(list)\<close>. A Python dict
  iterates in insertion order, so the dictionary is an association list whose keys are
  in the order they were first inserted.
\<close>

fun group_append :: "(string \<times> document list) list \<Rightarrow> string \<Rightarrow> document \<Rightarrow> (string \<times> document list) list" where
  "group_append [] project doc = [(project, [doc])]"
| "group_append ((p, docs) # rest) project doc =
     (if p = project then (p, docs @ [doc]) # rest else (p, docs) # group_append rest project doc)"

text \<open>One iteration of \<open>for doc in candidates\<close>, on the pair \<open>(project_groups, other_docs)\<close>.\<close>

definition group_step ::
  "(string \<times> document list) list \<times> document list \<Rightarrow> document \<Rightarrow> (string \<times> document list) list \<times> document list" where
  "group_step st doc =
     (case project_of doc of
        None \<Rightarrow> (fst st, snd st @ [doc])
      | Some project \<Rightarrow>
          if project \<noteq> [] \<and> project \<noteq> ''Unknown''
          then (group_append (fst st) project doc, snd st)
          else (fst st, snd st @ [doc]))"

definition group_candidates :: "document list \<Rightarrow> (string \<times> document list) list \<times> document list" where
  "group_candidates candidates = foldl group_step ([], []) candidates"

text \<open>
  \<open>_get_diverse_project_documents\<close>. The vector store's \<open>similarity_search(query, k)\<close> is
  the external index: it is the parameter \<open>similarity_search\<close>.
\<close>

definition select_docs :: "(string \<times> document list) list \<times> document list \<Rightarrow> document list" where
  "select_docs st = concat (map (\<lambda>(project, docs). take 4 docs) (fst st)) @ take 5 (snd st)"

definition get_diverse_project_documents ::
  "(string \<Rightarrow> nat \<Rightarrow> document list) \<Rightarrow> nat \<Rightarrow> string \<Rightarrow> document list" where
  "get_diverse_project_documents similarity_search base_k query =
     (let candidates = similarity_search query base_k
      in take 25 (select_docs (group_candidates candidates)))"

definition project_keywords :: "string list" where
  "project_keywords = [''projects'', ''working on'', ''current projects'', ''all projects'']"

definition is_project_query :: "string \<Rightarrow> bool" where
  "is_project_query query = any_keyword_in project_keywords (lower query)"

text \<open>\<open>_get_relevant_documents\<close>.\<close>

definition get_relevant_documents ::
  "(string \<Rightarrow> nat \<Rightarrow> document list) \<Rightarrow> nat \<Rightarrow> string \<Rightarrow> document list" where
  "get_relevant_documents similarity_search base_k query =
     (if is_project_query query
      then get_diverse_project_documents similarity_search base_k query
      else similarity_search query (min base_k 25))"


subsection \<open>Notions used to state the retriever's properties\<close>


text \<open>
  The labels that form a group, in the order of their first occurrence among the
  candidates.
\<close>

definition group_keys :: "document list \<Rightarrow> string list" where
  "group_keys candidates = rev (remdups (rev (map (\<lambda>d. the (project_of d)) (filter is_grouped candidates))))"


text \<open>
  A candidate whose project metadata is absent or whose project label is the string
  \<open>'Unknown'\<close>.
\<close>

definition unlabelled :: "document \<Rightarrow> bool" where
  "unlabelled doc = (project_of doc = None \<or> project_of doc = Some ''Unknown'')"

text \<open>
  Narrow mode in the words of the specification: the result of
  \<open>similarity_search(query, min(k, cap))\<close>, unchanged.
\<close>

definition narrow_mode_spec ::
  "(string \<Rightarrow> nat \<Rightarrow> document list) \<Rightarrow> nat \<Rightarrow> nat \<Rightarrow> string \<Rightarrow> document list" where
  "narrow_mode_spec similarity_search k cap query = similarity_search query (min k cap)"

subsection \<open>Concrete indexes\<close>

definition labelled :: "string \<Rightarrow> document" where
  "labelled p = \<lparr>page_content = ''text'', metadata = [(''source'', ''f.txt''), (''project'', p)]\<rparr>"

definition plain_doc :: document where
  "plain_doc = \<lparr>page_content = ''text'', metadata = [(''source'', ''g.txt'')]\<rparr>"

text \<open>An index whose candidates cycle through six projects, five times.\<close>

definition six_by_five_index :: "string \<Rightarrow> nat \<Rightarrow> document list" where
  "six_by_five_index query k =
     take k (concat (replicate 5 (map labelled [''A'', ''B'', ''C'', ''D'', ''E'', ''F''])))"


text \<open>An index with two passages of project A among unlabelled and \<open>'Unknown'\<close> ones.\<close>

definition mixed_index :: "string \<Rightarrow> nat \<Rightarrow> document list" where
  "mixed_index query k =
     take k ([labelled ''Unknown'', labelled ''A'', plain_doc, labelled ''A'']
             @ replicate 6 (labelled ''Unknown''))"

section \<open>The classifier (document_loader.py)\<close>

text \<open>
  \<open>get_document_type\<close>. Its argument here is \<open>rel_path\<close>, the value of
  \<open>os.path.relpath(file_path, base_path)\<close>: the path of the file relative to the
  corpus root, with \<open>/\<close> as \<open>os.sep\<close>.
\<close>

definition get_document_type :: "string \<Rightarrow> string" where
  "get_document_type rel_path =
     (let path_parts = split_on CHR ''/'' rel_path
      in if length path_parts = 1 then ''root_files'' else hd path_parts)"

text \<open>
  The \<open>if\<close>/\<open>elif\<close> chain of \<open>determine_project_name\<close> over the lower-cased full
  path: the first keyword list with a match gives the project, \<open>None\<close> stands for
  reaching the \<open>else\<close> branch.
\<close>

definition full_path_project :: "string \<Rightarrow> string option" where
  "full_path_project file_path_lower =
     (if any_keyword_in [''aa_sql'', ''sql_server'', ''sql server'', ''version_upgrade'', ''cumulative'',
                         ''aiskoldb'', ''aiscengdb''] file_path_lower
      then Some ''SQL Server Upgrades''
      else if any_keyword_in [''itgisworx'', ''precision'', ''agriculture'', ''sensaas'', ''asset_management'',
                              ''assets_datastructure''] file_path_lower
      then Some ''Precision Agriculture Asset Management''
      else if any_keyword_in [''aa_sfms'', ''sfms'', ''mining'', ''quellaveco'', ''amps'', ''operator'',
                              ''hexagon'', ''realtime'', ''truck''] file_path_lower
      then Some ''SFMS Mining Analytics''
      else if any_keyword_in [''eben_db_migration'', ''migration'', ''consolidated'', ''modem'', ''meters'',
                              ''suppliers'', ''accounts'', ''tariffs''] file_path_lower
      then Some ''Database Migration''
      else if any_keyword_in [''aa adas'', ''adas'', ''mix integrate'', ''driver assistance'', ''events'',
                              ''dictionary''] file_path_lower
      then Some ''Advanced Driver Assistance System''
      else None)"

text \<open>
  The body of the loop over the path segments, for a segment that is neither the file
  name nor \<open>'Projects'\<close>: the same kind of chain on the lower-cased segment, and the
  segment itself, with underscores as spaces and in title case, when nothing matches.
\<close>

definition folder_project :: "string \<Rightarrow> string" where
  "folder_project part =
     (let part_lower = lower part
      in if any_keyword_in [''sql'', ''server'', ''upgrade''] part_lower
         then ''SQL Server Upgrades''
         else if any_keyword_in [''precision'', ''agriculture'', ''gis''] part_lower
         then ''Precision Agriculture Asset Management''
         else if any_keyword_in [''sfms'', ''mining'', ''analytics''] part_lower
         then ''SFMS Mining Analytics''
         else if any_keyword_in [''migration'', ''db''] part_lower
         then ''Database Migration''
         else if any_keyword_in [''adas'', ''driver''] part_lower
         then ''Advanced Driver Assistance System''
         else title (replace_char CHR ''_'' CHR '' '' part))"

text \<open>
  \<open>for part in reversed(path_parts)\<close>: the first segment that is neither the file name
  nor \<open>'Projects'\<close> decides; when there is none the loop ends and the function returns
  \<open>"General Project"\<close>.
\<close>

fun scan_parts :: "string \<Rightarrow> string list \<Rightarrow> string" where
  "scan_parts file_name [] = ''General Project''"
| "scan_parts file_name (part # parts) =
     (if part \<noteq> file_name \<and> part \<noteq> ''Projects'' then folder_project part
      else scan_parts file_name parts)"

definition determine_project_name :: "string \<Rightarrow> string" where
  "determine_project_name file_path =
     (case full_path_project (lower file_path) of
        Some project \<Rightarrow> project
      | None \<Rightarrow> scan_parts (basename file_path) (rev (split_on CHR ''/'' file_path)))"

section \<open>The corpus builder (document_loader.py)\<close>

subsection \<open>The directory tree\<close>

text \<open>
  What the builder reads from the file system, as a value: a directory lists its
  entries in the order \<open>os.walk\<close> and \<open>glob\<close> see them. A file has its name, its size in
  bytes (\<open>os.path.getsize\<close>) and the text that the extraction library of its format
  yields: the pages of a PDF, the one text of any other file, \<open>None\<close> when the
  extraction raises.
\<close>

datatype node = File string nat "string list option" | Dir string "node list"

record file_entry =
  file_path :: string
  rel_path :: string
  file_size :: nat
  contents :: "string list option"

text \<open>The path of an entry of a directory, relative to the corpus root.\<close>

definition rel_join :: "string \<Rightarrow> string \<Rightarrow> string" where
  "rel_join rel name = (if rel = [] then name else rel @ ''/'' @ name)"

text \<open>
  The files of one directory that the predicate \<open>keep\<close> accepts, in listing order.
  \<open>root\<close> is the path of the directory, \<open>rel\<close> its path relative to the corpus root.
\<close>

fun files_here :: "(string \<Rightarrow> bool) \<Rightarrow> string \<Rightarrow> string \<Rightarrow> node list \<Rightarrow> file_entry list" where
  "files_here keep root rel [] = []"
| "files_here keep root rel (File name bytes extracted # entries) =
     (if keep name
      then \<lparr>file_path = path_join root name, rel_path = rel_join rel name,
            file_size = bytes, contents = extracted\<rparr> # files_here keep root rel entries
      else files_here keep root rel entries)"
| "files_here keep root rel (Dir name sub # entries) = files_here keep root rel entries"

text \<open>
  The top-down walk: the files of a directory first, then its subdirectories in
  listing order, a subdirectory whose name starts with a dot being pruned
  (\<open>dirs[:] = [d for d in dirs if not d.startswith('.')]\<close>).
\<close>

fun walk_subdirs :: "(string \<Rightarrow> bool) \<Rightarrow> string \<Rightarrow> string \<Rightarrow> node list \<Rightarrow> file_entry list"
  and walk_node :: "(string \<Rightarrow> bool) \<Rightarrow> string \<Rightarrow> string \<Rightarrow> node \<Rightarrow> file_entry list" where
  "walk_subdirs keep root rel [] = []"
| "walk_subdirs keep root rel (entry # entries) =
     walk_node keep root rel entry @ walk_subdirs keep root rel entries"
| "walk_node keep root rel (File name bytes extracted) = []"
| "walk_node keep root rel (Dir name sub) =
     (if startswith name ''.'' then []
      else files_here keep (path_join root name) (rel_join rel name) sub
           @ walk_subdirs keep (path_join root name) (rel_join rel name) sub)"

definition walk :: "(string \<Rightarrow> bool) \<Rightarrow> string \<Rightarrow> string \<Rightarrow> node list \<Rightarrow> file_entry list" where
  "walk keep root rel entries = files_here keep root rel entries @ walk_subdirs keep root rel entries"

subsection \<open>Discovery\<close>

text \<open>\<open>config.SUPPORTED_EXTENSIONS\<close>.\<close>

definition supported_extensions :: "string list" where
  "supported_extensions =
     [''.md'', ''.txt'', ''.py'', ''.js'', ''.html'', ''.css'', ''.json'', ''.yml'', ''.yaml'',
      ''.xml'', ''.csv'', ''.rst'', ''.tex'', ''.pdf'', ''.docx'', ''.doc'', ''.xlsx'', ''.xls'']"

text \<open>
  \<open>find_all_files_recursive\<close>, on the entries of \<open>base_path\<close>: the files whose name does
  not start with a dot and whose lower-cased extension is supported, hidden
  directories skipped.
\<close>

definition supported_file :: "string \<Rightarrow> bool" where
  "supported_file filename =
     (\<not> startswith filename ''.'' \<and> lower (splitext_ext filename) \<in> set supported_extensions)"

definition find_all_files_recursive :: "string \<Rightarrow> node list \<Rightarrow> file_entry list" where
  "find_all_files_recursive base_path entries = walk supported_file base_path [] entries"

text \<open>
  \<open>find_all_directories\<close>: the directories below \<open>base_path\<close>, hidden ones and the ones
  named \<open>__pycache__\<close> or \<open>node_modules\<close> (in any case) pruned. No function of the
  builder calls it.
\<close>

fun dirs_below :: "string \<Rightarrow> node list \<Rightarrow> string list"
  and dirs_of_node :: "string \<Rightarrow> node \<Rightarrow> string list" where
  "dirs_below root [] = []"
| "dirs_below root (entry # entries) = dirs_of_node root entry @ dirs_below root entries"
| "dirs_of_node root (File name bytes extracted) = []"
| "dirs_of_node root (Dir name sub) =
     (if \<not> startswith name ''.'' \<and> lower name \<notin> set [''__pycache__'', ''node_modules'']
      then path_join root name # dirs_below (path_join root name) sub
      else [])"

definition find_all_directories :: "string \<Rightarrow> node list \<Rightarrow> string list" where
  "find_all_directories base_path entries = dirs_below base_path entries"

text \<open>
  \<open>glob.glob(os.path.join(base_path, "Projects/**/*"), recursive=True)\<close> filtered with
  \<open>os.path.isfile\<close>: the files at any depth below the directory \<open>Projects\<close> of the
  corpus root. A wildcard of \<open>glob\<close> matches no name that starts with a dot.
\<close>

definition not_hidden :: "string \<Rightarrow> bool" where
  "not_hidden filename = (\<not> startswith filename ''.'')"

fun glob_project_files :: "string \<Rightarrow> node list \<Rightarrow> file_entry list" where
  "glob_project_files base_path [] = []"
| "glob_project_files base_path (File name bytes extracted # entries) = glob_project_files base_path entries"
| "glob_project_files base_path (Dir name sub # entries) =
     (if name = ''Projects''
      then walk not_hidden (path_join base_path ''Projects'') ''Projects'' sub
           @ glob_project_files base_path entries
      else glob_project_files base_path entries)"

subsection \<open>Loading\<close>

text \<open>
  \<open>add_metadata\<close>: the document type always, the file type and the subdirectory when
  they are not empty (\<open>None\<close> and the empty string are both false in the source's
  tests).
\<close>

definition add_metadata :: "document \<Rightarrow> string \<Rightarrow> string \<Rightarrow> string \<Rightarrow> document" where
  "add_metadata doc doc_type file_type subdirectory =
     (let m1 = dict_set (metadata doc) ''doc_type'' doc_type;
          m2 = (if file_type \<noteq> [] then dict_set m1 ''file_type'' file_type else m1);
          m3 = (if subdirectory \<noteq> [] then dict_set m2 ''subdirectory'' subdirectory else m2)
      in doc\<lparr>metadata := m3\<rparr>)"

text \<open>
  The document a loader makes of one extracted text: the text, and the path of the
  file under the key \<open>source\<close>.
\<close>

definition loaded_doc :: "string \<Rightarrow> string \<Rightarrow> document" where
  "loaded_doc path text = \<lparr>page_content = text, metadata = [(''source'', path)]\<rparr>"

text \<open>
  The documents and the three counters of \<open>load_documents_recursive\<close>.
\<close>

record load_state =
  documents :: "document list"
  loaded_count :: nat
  skipped_large :: nat
  skipped_errors :: nat

text \<open>
  One loader call that yields a single document (\<open>loader.load()[0]\<close>), with the file
  type put into the metadata: an extraction that raises, or yields nothing, counts as
  an error.
\<close>

definition load_single :: "load_state \<Rightarrow> file_entry \<Rightarrow> string \<Rightarrow> string \<Rightarrow> string \<Rightarrow> load_state" where
  "load_single st f doc_type file_type subdirectory =
     (case contents f of
        Some (first # others) \<Rightarrow>
          st\<lparr>documents := documents st @
                 [add_metadata (loaded_doc (file_path f) first) doc_type file_type subdirectory],
             loaded_count := loaded_count st + 1\<rparr>
      | _ \<Rightarrow> st\<lparr>skipped_errors := skipped_errors st + 1\<rparr>)"

text \<open>
  The body of the loop of \<open>load_documents_recursive\<close> for one file: the size check
  first, then the branch of the extension.
\<close>

definition load_file :: "nat \<Rightarrow> load_state \<Rightarrow> file_entry \<Rightarrow> load_state" where
  "load_file max_file_size st f =
     (if file_size f > max_file_size then st\<lparr>skipped_large := skipped_large st + 1\<rparr>
      else
        (let file_ext = lower (splitext_ext (basename (file_path f)));
             doc_type = get_document_type (rel_path f);
             subdirectory = (if dirname (rel_path f) \<noteq> ''.'' then dirname (rel_path f) else [])
         in if file_ext \<in> set [''.md'', ''.txt'', ''.py'', ''.js'', ''.html'', ''.css'', ''.json'', ''.yml'',
                                ''.yaml'', ''.xml'', ''.csv'', ''.rst'', ''.tex'']
            then load_single st f doc_type (drop 1 file_ext) subdirectory
            else if file_ext = ''.pdf''
            then (case contents f of
                    Some pages \<Rightarrow>
                      st\<lparr>documents := documents st @
                             map (\<lambda>page. add_metadata (loaded_doc (file_path f) page)
                                           doc_type ''pdf'' subdirectory) pages,
                         loaded_count := loaded_count st + length pages\<rparr>
                  | None \<Rightarrow> st\<lparr>skipped_errors := skipped_errors st + 1\<rparr>)
            else if file_ext \<in> set [''.docx'', ''.doc'']
            then load_single st f doc_type ''docx'' subdirectory
            else if file_ext \<in> set [''.xlsx'', ''.xls'']
            then load_single st f doc_type ''excel'' subdirectory
            else st))"

definition load_documents_recursive :: "nat \<Rightarrow> string \<Rightarrow> node list \<Rightarrow> load_state" where
  "load_documents_recursive max_file_size base_path entries =
     foldl (load_file max_file_size)
       \<lparr>documents = [], loaded_count = 0, skipped_large = 0, skipped_errors = 0\<rparr>
       (find_all_files_recursive base_path entries)"

text \<open>
  \<open>add_enhanced_metadata\<close> and the text that \<open>load_enhanced_project_documents\<close> puts in
  front of the content. The source writes \<open>\\n\<close> in these strings: a backslash and
  the letter n.
\<close>

definition add_enhanced_metadata :: "document \<Rightarrow> string \<Rightarrow> string \<Rightarrow> string \<Rightarrow> document" where
  "add_enhanced_metadata doc doc_type file_type project_name =
     doc\<lparr>metadata :=
       dict_set (dict_set (dict_set (dict_set (metadata doc) ''doc_type'' doc_type)
         ''file_type'' file_type) ''company'' ''Company'') ''project'' project_name\<rparr>"

definition backslash_n :: string where
  "backslash_n = [CHR 0x5C, CHR ''n'']"

definition enhanced_content :: "string \<Rightarrow> string \<Rightarrow> string \<Rightarrow> string \<Rightarrow> string" where
  "enhanced_content project_name kind filename content =
     ''ARTILIGENCE PROJECT: '' @ project_name @ backslash_n @ backslash_n @ kind @ filename
       @ backslash_n @ backslash_n @ content"

definition enhanced_doc :: "file_entry \<Rightarrow> string \<Rightarrow> string \<Rightarrow> string \<Rightarrow> document" where
  "enhanced_doc f kind file_type content =
     (let project_name = determine_project_name (file_path f)
      in add_enhanced_metadata
           (loaded_doc (file_path f)
              (enhanced_content project_name kind (basename (file_path f)) content))
           ''Projects'' file_type project_name)"

text \<open>The one text of a file that is not a PDF, \<open>None\<close> when the extraction failed.\<close>

definition single_text :: "file_entry \<Rightarrow> string option" where
  "single_text f = (case contents f of Some (first # others) \<Rightarrow> Some first | _ \<Rightarrow> None)"

text \<open>
  The body of the loop of \<open>load_enhanced_project_documents\<close> for one file: the documents
  it appends. There is no size check, and a failure is logged and the file left out.
\<close>

definition load_project_file :: "file_entry \<Rightarrow> document list" where
  "load_project_file f =
     (let filename = basename (file_path f);
          file_ext = lower (splitext_ext filename)
      in if startswith filename ''~$'' \<or> startswith filename ''.'' then []
         else if file_ext = ''.pdf''
         then (case contents f of
                 Some pages \<Rightarrow> map (enhanced_doc f ''Document: '' ''pdf'') pages
               | None \<Rightarrow> [])
         else if file_ext \<in> set [''.docx'', ''.doc'']
         then (case single_text f of
                 Some content \<Rightarrow>
                   if strip content \<noteq> [] then [enhanced_doc f ''Document: '' ''docx'' content] else []
               | None \<Rightarrow> [])
         else if file_ext = ''.txt''
         then (case single_text f of
                 Some content \<Rightarrow>
                   if content \<noteq> [] then [enhanced_doc f ''Script/Document: '' ''text'' content] else []
               | None \<Rightarrow> [])
         else if file_ext \<in> set [''.sql'']
         then (case single_text f of
                 Some content \<Rightarrow> [enhanced_doc f ''SQL Script: '' ''sql'' content]
               | None \<Rightarrow> [])
         else if file_ext \<in> set [''.xlsx'', ''.xls'', ''.csv'']
         then (case single_text f of
                 Some summary \<Rightarrow> [enhanced_doc f ''Spreadsheet: '' ''spreadsheet'' summary]
               | None \<Rightarrow> [])
         else [])"

definition load_enhanced_project_documents :: "string \<Rightarrow> node list \<Rightarrow> document list" where
  "load_enhanced_project_documents base_path entries =
     concat (map load_project_file (glob_project_files base_path entries))"

subsection \<open>Filtering, chunking and capping\<close>

text \<open>
  The filter of \<open>load_all_documents\<close>: a document is kept when its type is
  \<open>'Projects'\<close> or its text is no longer than \<open>max_file_size\<close>;
  \<open>doc.metadata.get('doc_type', 'unknown')\<close> reads the type.
\<close>

definition doc_type_of :: "document \<Rightarrow> string" where
  "doc_type_of doc = (case map_of (metadata doc) ''doc_type'' of Some t \<Rightarrow> t | None \<Rightarrow> ''unknown'')"

definition keep_document :: "nat \<Rightarrow> document \<Rightarrow> bool" where
  "keep_document max_file_size doc =
     (doc_type_of doc = ''Projects'' \<or> length (page_content doc) \<le> max_file_size)"

definition filtered_documents :: "nat \<Rightarrow> string \<Rightarrow> node list \<Rightarrow> document list" where
  "filtered_documents max_file_size base_path entries =
     filter (keep_document max_file_size)
       (documents (load_documents_recursive max_file_size base_path entries)
        @ load_enhanced_project_documents base_path entries)"



subsection \<open>Notions and inputs used to state the builder's properties\<close>




text \<open>A corpus root with a \<open>node_modules\<close> and a \<open>__pycache__\<close> directory.\<close>

definition tooling_tree :: "node list" where
  "tooling_tree =
     [Dir ''node_modules'' [File ''readme.md'' 20 (Some [''package notes''])],
      Dir ''__pycache__'' [File ''notes.txt'' 5 (Some [''cache''])]]"

text \<open>
  A corpus root whose \<open>Projects\<close> directory holds one Markdown file, respectively one
  text file, of 100001 bytes.
\<close>

definition large_markdown_tree :: "node list" where
  "large_markdown_tree = [Dir ''Projects'' [File ''notes.md'' 100001 (Some [''project notes''])]]"

definition large_text_tree :: "node list" where
  "large_text_tree = [Dir ''Projects'' [File ''notes.txt'' 100001 (Some [''project notes''])]]"

section \<open>Properties of the enhanced retriever\<close>

lemma group_keys_Nil: "group_keys [] = []" by (simp add: group_keys_def)

lemma group_keys_snoc:
  "group_keys (cands @ [d]) =
     (if is_grouped d \<and> the (project_of d) \<notin> set (group_keys cands)
      then group_keys cands @ [the (project_of d)] else group_keys cands)"
  by (simp add: group_keys_def)

lemma distinct_group_keys: "distinct (group_keys cands)"
  by (simp add: group_keys_def)

lemma set_group_keys:
  "set (group_keys cands) = {p. \<exists>d \<in> set cands. is_grouped d \<and> project_of d = Some p}"
  by (auto simp: group_keys_def is_grouped_def split: option.splits) force

lemma group_append_map:
  "distinct ks \<Longrightarrow> group_append (map (\<lambda>p. (p, f p)) ks) q d =
     (if q \<in> set ks then map (\<lambda>p. (p, if p = q then f p @ [d] else f p)) ks
      else map (\<lambda>p. (p, f p)) ks @ [(q, [d])])"
  by (induction ks) auto

lemma group_candidates_snoc:
  "group_candidates (cands @ [d]) = group_step (group_candidates cands) d"
  by (simp add: group_candidates_def)

lemma group_candidates_eq:
  "group_candidates cands =
     (map (\<lambda>p. (p, filter (\<lambda>d. project_of d = Some p) cands)) (group_keys cands),
      filter (\<lambda>d. \<not> is_grouped d) cands)"
proof (induction cands rule: rev_induct)
  case Nil
  show ?case by (simp add: group_candidates_def group_keys_Nil)
next
  case (snoc d cands)
  show ?case
  proof (cases "is_grouped d")
    case False
    then have "group_step (group_candidates cands) d =
        (fst (group_candidates cands), snd (group_candidates cands) @ [d])"
      by (auto simp: group_step_def is_grouped_def split: option.splits)
    moreover have "\<And>p. p \<in> set (group_keys cands) \<Longrightarrow> project_of d \<noteq> Some p"
      using False by (auto simp: set_group_keys is_grouped_def split: option.splits)
    ultimately show ?thesis
      using False snoc.IH by (simp add: group_candidates_snoc group_keys_snoc)
  next
    case True
    then obtain q where q: "project_of d = Some q" "q \<noteq> []" "q \<noteq> ''Unknown''"
      by (auto simp: is_grouped_def split: option.splits)
    have step: "group_step (group_candidates cands) d =
        (group_append (fst (group_candidates cands)) q d, snd (group_candidates cands))"
      using q by (simp add: group_step_def)
    show ?thesis
    proof (cases "q \<in> set (group_keys cands)")
      case True
      then show ?thesis
        using \<open>is_grouped d\<close> q snoc.IH step
        by (auto simp: group_candidates_snoc group_keys_snoc group_append_map distinct_group_keys)
    next
      case False
      then have "filter (\<lambda>d. project_of d = Some q) cands = []"
        using q by (auto simp: set_group_keys is_grouped_def filter_empty_conv)
      then show ?thesis
        using False \<open>is_grouped d\<close> q snoc.IH step
        by (auto simp: group_candidates_snoc group_keys_snoc group_append_map distinct_group_keys)
    qed
  qed
qed

lemma select_docs_eq:
  "select_docs (group_candidates cands) =
     concat (map (\<lambda>p. take 4 (filter (\<lambda>d. project_of d = Some p) cands)) (group_keys cands))
     @ take 5 (filter (\<lambda>d. \<not> is_grouped d) cands)"
  by (simp add: select_docs_def group_candidates_eq comp_def)

lemma length_select_docs_le: "length (take 25 xs) \<le> 25"
  by simp

lemma label_of_taken:
  "d \<in> set (take n (filter (\<lambda>d. project_of d = Some p) cands)) \<Longrightarrow> project_of d = Some p"
proof -
  assume "d \<in> set (take n (filter (\<lambda>d. project_of d = Some p) cands))"
  then have "d \<in> set (filter (\<lambda>d. project_of d = Some p) cands)" by (rule in_set_takeD)
  then show "project_of d = Some p" by simp
qed














text \<open>
  Claim C4. For a query whose lower-cased text contains none of the intent phrases, the
  retriever returns the list that the similarity primitive returns for
  \<open>min(base_k, 25)\<close> results, as it is: the code's result equals narrow mode as the
  specification words it.
\<close>

theorem narrow_mode_unchanged:
  assumes "\<forall>keyword \<in> set project_keywords. \<not> contains keyword (lower query)"
  shows "get_relevant_documents similarity_search base_k query =
           narrow_mode_spec similarity_search base_k 25 query"
proof -
  have "\<not> is_project_query query"
    using assms by (simp add: is_project_query_def any_keyword_in_def list_ex_iff)
  then show ?thesis
    by (simp add: get_relevant_documents_def narrow_mode_spec_def)
qed

theorem narrow_mode_unchanged_witness:
  "list_all (\<lambda>keyword. \<not> contains keyword (lower ''How is the SQL Server upgrade done?'')) project_keywords \<and>
   get_relevant_documents six_by_five_index 30 ''How is the SQL Server upgrade done?'' =
     six_by_five_index ''How is the SQL Server upgrade done?'' 25"
proof -
  have l: "list_all (\<lambda>keyword. \<not> contains keyword (lower ''How is the SQL Server upgrade done?'')) project_keywords"
    by code_simp
  then have h: "\<forall>keyword \<in> set project_keywords. \<not> contains keyword (lower ''How is the SQL Server upgrade done?'')"
    by (simp only: list_all_iff)
  have "get_relevant_documents six_by_five_index 30 ''How is the SQL Server upgrade done?'' =
          narrow_mode_spec six_by_five_index 30 25 ''How is the SQL Server upgrade done?''"
    using h by (rule narrow_mode_unchanged)
  then show ?thesis using l by (simp add: narrow_mode_spec_def)
qed

lemma key_not_unknown:
  assumes "p \<in> set (group_keys cands)"
  shows "p \<noteq> ''Unknown''" and "p \<noteq> []"
proof -
  from assms obtain d where "is_grouped d" "project_of d = Some p"
    unfolding set_group_keys by blast
  then show "p \<noteq> ''Unknown''" and "p \<noteq> []"
    by (simp_all add: is_grouped_def)
qed

lemma grouped_not_unlabelled: "is_grouped d \<Longrightarrow> \<not> unlabelled d"
  by (auto simp: is_grouped_def unlabelled_def split: option.splits)

lemma unlabelled_not_grouped: "unlabelled d \<Longrightarrow> \<not> is_grouped d"
  using grouped_not_unlabelled by blast

lemma group_members:
  assumes "(p, docs) \<in> set (fst (group_candidates cands))" and "d \<in> set docs"
  shows "p \<in> set (group_keys cands)" and "project_of d = Some p" and "is_grouped d"
proof -
  from assms(1) have p: "p \<in> set (group_keys cands)"
    and docs: "docs = filter (\<lambda>d. project_of d = Some p) cands"
    by (auto simp: group_candidates_eq)
  show "p \<in> set (group_keys cands)" by (rule p)
  show lab: "project_of d = Some p" using assms(2) docs by simp
  show "is_grouped d"
    using lab key_not_unknown [OF p] by (simp add: is_grouped_def)
qed

lemma grouped_part_all_grouped:
  "d \<in> set (concat (map (\<lambda>p. take 4 (filter (\<lambda>d. project_of d = Some p) cands)) (group_keys cands)))
   \<Longrightarrow> is_grouped d"
proof -
  assume "d \<in> set (concat (map (\<lambda>p. take 4 (filter (\<lambda>d. project_of d = Some p) cands)) (group_keys cands)))"
  then obtain p where p: "p \<in> set (group_keys cands)"
    and d: "d \<in> set (take 4 (filter (\<lambda>d. project_of d = Some p) cands))"
    by auto
  from d have "project_of d = Some p" by (rule label_of_taken)
  then show "is_grouped d"
    using key_not_unknown [OF p] by (simp add: is_grouped_def)
qed

text \<open>
  Claim C10. In broad mode a candidate without project metadata, or labelled
  \<open>'Unknown'\<close>, is in no project group, so it takes no slot of a per-group cap;
  \<open>'Unknown'\<close> is never the key of a group; the result is the grouped selections
  followed by at most 5 ungrouped candidates, so at most 5 such candidates are returned.
\<close>

theorem unknown_never_grouped:
  "''Unknown'' \<notin> fst ` set (fst (group_candidates (similarity_search query base_k))) \<and>
   (\<forall>(p, docs) \<in> set (fst (group_candidates (similarity_search query base_k))).
      \<forall>d \<in> set docs. \<not> unlabelled d) \<and>
   (\<exists>grouped others.
      get_diverse_project_documents similarity_search base_k query = grouped @ others \<and>
      (\<forall>d \<in> set grouped. \<not> unlabelled d) \<and>
      (\<forall>d \<in> set others. \<not> is_grouped d) \<and> length others \<le> 5) \<and>
   length (filter unlabelled (get_diverse_project_documents similarity_search base_k query)) \<le> 5"
proof -
  let ?cands = "similarity_search query base_k"
  let ?G = "concat (map (\<lambda>p. take 4 (filter (\<lambda>d. project_of d = Some p) ?cands)) (group_keys ?cands))"
  let ?O = "take 5 (filter (\<lambda>d. \<not> is_grouped d) ?cands)"
  let ?g = "take 25 ?G" and ?o = "take (25 - length ?G) ?O"
  have a: "''Unknown'' \<notin> fst ` set (fst (group_candidates ?cands))"
  proof
    assume "''Unknown'' \<in> fst ` set (fst (group_candidates ?cands))"
    then have "''Unknown'' \<in> set (group_keys ?cands)"
      by (auto simp: group_candidates_eq)
    then show False using key_not_unknown(1) by blast
  qed
  have b: "\<forall>(p, docs) \<in> set (fst (group_candidates ?cands)). \<forall>d \<in> set docs. \<not> unlabelled d"
    using group_members(3) grouped_not_unlabelled by blast
  have res: "get_diverse_project_documents similarity_search base_k query = ?g @ ?o"
    by (simp add: get_diverse_project_documents_def select_docs_eq Let_def)
  have g: "\<forall>d \<in> set ?g. \<not> unlabelled d"
  proof
    fix d assume "d \<in> set ?g"
    then have "d \<in> set ?G" by (rule in_set_takeD)
    then have "is_grouped d" by (rule grouped_part_all_grouped)
    then show "\<not> unlabelled d" by (rule grouped_not_unlabelled)
  qed
  have o: "\<forall>d \<in> set ?o. \<not> is_grouped d"
  proof
    fix d assume "d \<in> set ?o"
    then have "d \<in> set ?O" by (rule in_set_takeD)
    then have "d \<in> set (filter (\<lambda>d. \<not> is_grouped d) ?cands)" by (rule in_set_takeD)
    then show "\<not> is_grouped d" by simp
  qed
  have len: "length ?o \<le> 5" by simp
  have "filter unlabelled ?g = []"
    unfolding filter_empty_conv using g by blast
  then have "length (filter unlabelled (?g @ ?o)) = length (filter unlabelled ?o)"
    by simp
  also have "\<dots> \<le> length ?o" by (rule length_filter_le)
  finally have c: "length (filter unlabelled (?g @ ?o)) \<le> 5" using len by simp
  have ex: "\<exists>grouped others.
      get_diverse_project_documents similarity_search base_k query = grouped @ others \<and>
      (\<forall>d \<in> set grouped. \<not> unlabelled d) \<and>
      (\<forall>d \<in> set others. \<not> is_grouped d) \<and> length others \<le> 5"
    using res g o len by blast
  show ?thesis
    using a b ex c unfolding res by (intro conjI)
qed

theorem unknown_never_grouped_witness:
  "fst (group_candidates (mixed_index ''list all projects'' 30)) = [(''A'', [labelled ''A'', labelled ''A''])] \<and>
   ''Unknown'' \<notin> fst ` set (fst (group_candidates (mixed_index ''list all projects'' 30))) \<and>
   length (get_diverse_project_documents mixed_index 30 ''list all projects'') = 7 \<and>
   length (filter unlabelled (get_diverse_project_documents mixed_index 30 ''list all projects'')) \<le> 5"
proof -
  note u = unknown_never_grouped [of mixed_index "''list all projects''" 30]
  have "fst (group_candidates (mixed_index ''list all projects'' 30)) = [(''A'', [labelled ''A'', labelled ''A''])]"
    by code_simp
  moreover have "length (get_diverse_project_documents mixed_index 30 ''list all projects'') = 7"
    by code_simp
  moreover from u have "''Unknown'' \<notin> fst ` set (fst (group_candidates (mixed_index ''list all projects'' 30)))"
    by (rule conjunct1)
  moreover from u have "length (filter unlabelled (get_diverse_project_documents mixed_index 30 ''list all projects'')) \<le> 5"
    by (rule conjunct2 [THEN conjunct2, THEN conjunct2])
  ultimately show ?thesis by (intro conjI)
qed

section \<open>Properties of the classifier\<close>

lemma length_split_on: "length (split_on sep s) = Suc (length (filter (\<lambda>c. c = sep) s))"
  by (induction s) (auto split: list.splits)

lemma single_segment: "length (split_on sep s) = 1 \<longleftrightarrow> sep \<notin> set s"
  by (auto simp: length_split_on filter_empty_conv)

lemma split_on_single: "sep \<notin> set s \<Longrightarrow> split_on sep s = [s]"
  by (induction s) auto

lemma basename_single: "CHR ''/'' \<notin> set p \<Longrightarrow> basename p = p"
proof -
  assume "CHR ''/'' \<notin> set p"
  then have "takeWhile (\<lambda>c. c \<noteq> CHR ''/'') (rev p) = rev p"
    unfolding takeWhile_eq_all_conv by auto
  then show ?thesis unfolding basename_def by (simp only: rev_rev_ident)
qed

text \<open>
  Claim C2. The path \<open>Projects/SQL_Server/upgrade.sql\<close> is classified as project
  "SQL Server Upgrades" and \<open>Projects/SFMS_Mining/report.pdf\<close> as "SFMS Mining
  Analytics"; both get the document type "Projects", the first segment of the path
  relative to the corpus root. The loader passes the full path of the file to
  \<open>determine_project_name\<close>: below the default corpus root the projects are the same.
\<close>

theorem classify_scenario:
  "determine_project_name ''Projects/SQL_Server/upgrade.sql'' = ''SQL Server Upgrades'' \<and>
   determine_project_name ''Projects/SFMS_Mining/report.pdf'' = ''SFMS Mining Analytics'' \<and>
   get_document_type ''Projects/SQL_Server/upgrade.sql'' = ''Projects'' \<and>
   get_document_type ''Projects/SFMS_Mining/report.pdf'' = ''Projects'' \<and>
   determine_project_name ''/Users/johanjgenis/Documents/Artiligence/Projects/SQL_Server/upgrade.sql''
     = ''SQL Server Upgrades'' \<and>
   determine_project_name ''/Users/johanjgenis/Documents/Artiligence/Projects/SFMS_Mining/report.pdf''
     = ''SFMS Mining Analytics''"
  by code_simp

text \<open>
  Claim C9. A file directly under the corpus root, that is one whose relative path has
  a single segment, gets the document type "root_files"; and when no keyword list of
  the full-path chain matches such a path, which has no enclosing directory, its
  project is "General Project".
\<close>

theorem root_file_classification:
  "length (split_on CHR ''/'' relative) = 1 \<Longrightarrow>
     get_document_type relative = ''root_files'' \<and>
     (full_path_project (lower relative) = None \<longrightarrow>
        determine_project_name relative = ''General Project'')"
proof (intro conjI impI)
  assume single: "length (split_on CHR ''/'' relative) = 1"
  then show "get_document_type relative = ''root_files''"
    by (simp add: get_document_type_def)
  assume none: "full_path_project (lower relative) = None"
  have no: "CHR ''/'' \<notin> set relative"
    by (rule single_segment [THEN iffD1, OF single])
  show "determine_project_name relative = ''General Project''"
    unfolding determine_project_name_def none split_on_single [OF no] basename_single [OF no]
    by simp
qed

theorem root_file_classification_witness:
  "length (split_on CHR ''/'' ''readme.txt'') = 1 \<and>
   full_path_project (lower ''readme.txt'') = None \<and>
   get_document_type ''readme.txt'' = ''root_files'' \<and>
   determine_project_name ''readme.txt'' = ''General Project''"
proof -
  have single: "length (split_on CHR ''/'' ''readme.txt'') = 1"
    by code_simp
  have none: "full_path_project (lower ''readme.txt'') = None"
    by code_simp
  note r = root_file_classification [OF single]
  from r have "get_document_type ''readme.txt'' = ''root_files''"
    by (rule conjunct1)
  moreover from r [THEN conjunct2] none have "determine_project_name ''readme.txt'' = ''General Project''"
    by (rule mp)
  ultimately show ?thesis using single none by (intro conjI)
qed

section \<open>Properties of the corpus builder\<close>

lemma map_of_dict_set: "map_of (dict_set m k v) = (map_of m)(k \<mapsto> v)"
  by (induction m) auto

lemma doc_type_add_metadata:
  "doc_type_of (add_metadata doc doc_type file_type subdirectory) = doc_type"
  by (simp add: doc_type_of_def add_metadata_def Let_def map_of_dict_set)

lemma doc_type_enhanced_doc: "doc_type_of (enhanced_doc f kind file_type content) = ''Projects''"
  by (simp add: doc_type_of_def enhanced_doc_def add_enhanced_metadata_def Let_def map_of_dict_set)

lemma project_paths:
  "path_join ''/corpus'' ''Projects'' = ''/corpus/Projects''"
  "path_join ''/corpus/Projects'' ''notes.md'' = ''/corpus/Projects/notes.md''"
  "path_join ''/corpus/Projects'' ''notes.txt'' = ''/corpus/Projects/notes.txt''"
  "rel_join [] ''Projects'' = ''Projects''"
  "rel_join ''Projects'' ''notes.md'' = ''Projects/notes.md''"
  "rel_join ''Projects'' ''notes.txt'' = ''Projects/notes.txt''"
  "startswith ''Projects'' ''.'' = False"
  by code_simp+

lemma markdown_name:
  "supported_file ''notes.md'' = True"
  "not_hidden ''notes.md'' = True"
  "basename ''/corpus/Projects/notes.md'' = ''notes.md''"
  "lower (splitext_ext ''notes.md'') = ''.md''"
  "startswith ''notes.md'' ''~$'' = False"
  "startswith ''notes.md'' ''.'' = False"
  by code_simp+

lemma text_name:
  "supported_file ''notes.txt'' = True"
  "not_hidden ''notes.txt'' = True"
  "basename ''/corpus/Projects/notes.txt'' = ''notes.txt''"
  "lower (splitext_ext ''notes.txt'') = ''.txt''"
  "startswith ''notes.txt'' ''~$'' = False"
  "startswith ''notes.txt'' ''.'' = False"
  by code_simp+

lemma found_in_projects:
  assumes "supported_file name = True"
  shows "find_all_files_recursive ''/corpus'' [Dir ''Projects'' [File name bytes extracted]]
     = [\<lparr>file_path = path_join ''/corpus/Projects'' name, rel_path = rel_join ''Projects'' name,
         file_size = bytes, contents = extracted\<rparr>]"
  using assms by (simp add: find_all_files_recursive_def walk_def project_paths)

lemma globbed_in_projects:
  assumes "not_hidden name = True"
  shows "glob_project_files ''/corpus'' [Dir ''Projects'' [File name bytes extracted]]
     = [\<lparr>file_path = path_join ''/corpus/Projects'' name, rel_path = rel_join ''Projects'' name,
         file_size = bytes, contents = extracted\<rparr>]"
  using assms by (simp add: walk_def project_paths)

lemma large_file_skipped:
  assumes "supported_file name = True" and "max_file_size < bytes"
  shows "load_documents_recursive max_file_size ''/corpus'' [Dir ''Projects'' [File name bytes extracted]]
     = \<lparr>documents = [], loaded_count = 0, skipped_large = 1, skipped_errors = 0\<rparr>"
  using assms(2)
  by (simp add: load_documents_recursive_def found_in_projects [OF assms(1)] load_file_def)

lemma markdown_not_enhanced:
  "load_project_file \<lparr>file_path = ''/corpus/Projects/notes.md'', rel_path = ''Projects/notes.md'',
         file_size = bytes, contents = extracted\<rparr> = []"
  by (simp add: load_project_file_def markdown_name Let_def)

lemma text_enhanced:
  "load_project_file \<lparr>file_path = ''/corpus/Projects/notes.txt'', rel_path = ''Projects/notes.txt'',
         file_size = bytes, contents = Some [''project notes'']\<rparr>
     = [enhanced_doc \<lparr>file_path = ''/corpus/Projects/notes.txt'', rel_path = ''Projects/notes.txt'',
         file_size = bytes, contents = Some [''project notes'']\<rparr> ''Script/Document: '' ''text'' ''project notes'']"
  by (simp add: load_project_file_def text_name single_text_def Let_def)

lemma large_markdown_dropped:
  assumes "max_file_size < bytes"
  shows "filtered_documents max_file_size ''/corpus'' [Dir ''Projects'' [File ''notes.md'' bytes extracted]] = []"
  by (simp add: filtered_documents_def large_file_skipped [OF markdown_name(1) assms]
      load_enhanced_project_documents_def globbed_in_projects [OF markdown_name(2)]
      project_paths markdown_not_enhanced del: glob_project_files.simps)

lemma large_text_kept:
  assumes "max_file_size < bytes"
  shows "map doc_type_of (filtered_documents max_file_size ''/corpus''
           [Dir ''Projects'' [File ''notes.txt'' bytes (Some [''project notes''])]]) = [''Projects'']"
  by (simp add: filtered_documents_def large_file_skipped [OF text_name(1) assms]
      load_enhanced_project_documents_def globbed_in_projects [OF text_name(2)]
      project_paths text_enhanced keep_document_def doc_type_enhanced_doc del: glob_project_files.simps)

text \<open>
  Claim C5, on the code. A Markdown file of the \<open>Projects\<close> directory that is larger
  than \<open>max_file_size\<close> (100000) is counted as skipped by \<open>load_documents_recursive\<close>,
  whose size check exempts no document type, and the project loader has no
  branch for its extension: no document of the build comes from it. A text file of
  the same size in the same directory is kept, through the project loader.
\<close>

theorem large_project_file_dropped:
  "get_document_type ''Projects/notes.md'' = ''Projects'' \<and>
   skipped_large (load_documents_recursive 100000 ''/corpus'' large_markdown_tree) = 1 \<and>
   filtered_documents 100000 ''/corpus'' large_markdown_tree = [] \<and>
   map doc_type_of (filtered_documents 100000 ''/corpus'' large_text_tree) = [''Projects'']"
proof -
  have size: "(100000 :: nat) < 100001" by simp
  have "get_document_type ''Projects/notes.md'' = ''Projects''"
    by code_simp
  moreover have "skipped_large (load_documents_recursive 100000 ''/corpus'' large_markdown_tree) = 1"
    unfolding large_markdown_tree_def large_file_skipped [OF markdown_name(1) size] by simp
  moreover have "filtered_documents 100000 ''/corpus'' large_markdown_tree = []"
    unfolding large_markdown_tree_def by (rule large_markdown_dropped [OF size])
  moreover have "map doc_type_of (filtered_documents 100000 ''/corpus'' large_text_tree) = [''Projects'']"
    unfolding large_text_tree_def by (rule large_text_kept [OF size])
  ultimately show ?thesis by (intro conjI)
qed

lemma page_content_add_metadata:
  "page_content (add_metadata doc doc_type file_type subdirectory) = page_content doc"
  by (simp add: add_metadata_def Let_def)

lemma tooling_found:
  "find_all_files_recursive ''/corpus'' tooling_tree =
     [\<lparr>file_path = ''/corpus/node_modules/readme.md'', rel_path = ''node_modules/readme.md'',
        file_size = 20, contents = Some [''package notes'']\<rparr>,
      \<lparr>file_path = ''/corpus/__pycache__/notes.txt'', rel_path = ''__pycache__/notes.txt'',
        file_size = 5, contents = Some [''cache'']\<rparr>]"
  by code_simp

lemma tooling_names:
  "lower (splitext_ext (basename ''/corpus/node_modules/readme.md'')) = ''.md''"
  "lower (splitext_ext (basename ''/corpus/__pycache__/notes.txt'')) = ''.txt''"
  "get_document_type ''node_modules/readme.md'' = ''node_modules''"
  "get_document_type ''__pycache__/notes.txt'' = ''__pycache__''"
  "glob_project_files ''/corpus'' tooling_tree = []"
  by code_simp+

lemma tooling_loaded:
  "map doc_type_of (documents (load_documents_recursive 100000 ''/corpus'' tooling_tree))
     = [''node_modules'', ''__pycache__''] \<and>
   map page_content (documents (load_documents_recursive 100000 ''/corpus'' tooling_tree))
     = [''package notes'', ''cache'']"
  by (simp add: load_documents_recursive_def tooling_found load_file_def tooling_names
      load_single_def doc_type_add_metadata page_content_add_metadata loaded_doc_def Let_def)

text \<open>
  Claim C7, on the code. File discovery prunes hidden directories only: the files of
  \<open>node_modules\<close> and \<open>__pycache__\<close> are discovered and loaded, with these names as
  their document type, while \<open>find_all_directories\<close> excludes both directories.
\<close>

theorem tooling_directories_discovered:
  "map rel_path (find_all_files_recursive ''/corpus'' tooling_tree)
     = [''node_modules/readme.md'', ''__pycache__/notes.txt''] \<and>
   map doc_type_of (filtered_documents 100000 ''/corpus'' tooling_tree)
     = [''node_modules'', ''__pycache__''] \<and>
   find_all_directories ''/corpus'' tooling_tree = []"
proof -
  have "map rel_path (find_all_files_recursive ''/corpus'' tooling_tree)
     = [''node_modules/readme.md'', ''__pycache__/notes.txt'']"
    by (simp add: tooling_found)
  moreover have "find_all_directories ''/corpus'' tooling_tree = []"
    by code_simp
  moreover have "map doc_type_of (filtered_documents 100000 ''/corpus'' tooling_tree)
     = [''node_modules'', ''__pycache__'']"
  proof -
    let ?docs = "documents (load_documents_recursive 100000 ''/corpus'' tooling_tree)"
    have "\<forall>d \<in> set ?docs. keep_document 100000 d"
    proof
      fix d assume "d \<in> set ?docs"
      then have "page_content d \<in> set (map page_content ?docs)" by simp
      then have "page_content d \<in> {''package notes'', ''cache''}"
        by (simp add: tooling_loaded)
      then have "length (page_content d) \<le> 100000" by auto
      then show "keep_document 100000 d" by (simp add: keep_document_def)
    qed
    then have "filter (keep_document 100000) ?docs = ?docs"
      by (rule filter_True)
    then have "filtered_documents 100000 ''/corpus'' tooling_tree = ?docs"
      by (simp add: filtered_documents_def load_enhanced_project_documents_def tooling_names)
    then show ?thesis by (simp add: tooling_loaded)
  qed
  ultimately show ?thesis by (intro conjI)
qed





end
